theory Spec2Isabelle
  imports Main "HOL-Library.AList" "HOL-Library.Sublist"
begin

section \<open>Static transaction configuration of the test networks\<close>

text \<open>
  The first file of \<^verbatim>\<open>testnets.ts\<close> is a table of object literals. A JavaScript object
  literal is kept as the list of its properties in the order they are written. The numbers
  of the table are integer literals below \<open>2^53\<close>, which a JavaScript number holds exactly;
  no arithmetic is done on them, so \<open>int\<close> stands for \<^verbatim>\<open>number\<close>. An override value is
  either such a number or an ethers \<^verbatim>\<open>BigNumber\<close>.
\<close>

datatype BigNumberish = BigNumber int | Number int

type_synonym Overrides = "(string \<times> BigNumberish) list"

record TransactionConfig =
  confirmations :: int
  overrides :: Overrides

definition alfajores :: TransactionConfig where
  "alfajores = \<lparr>confirmations = 1, overrides = []\<rparr>"

definition fuji :: TransactionConfig where
  "fuji = \<lparr>confirmations = 1, overrides = []\<rparr>"

definition goerli :: TransactionConfig where
  "goerli = \<lparr>confirmations = 3, overrides = [(''gasPrice'', BigNumber 10000000000)]\<rparr>"

definition kovan :: TransactionConfig where
  "kovan = \<lparr>confirmations = 3,
     overrides = [(''gasPrice'', BigNumber 10000000000), (''gasLimit'', Number 15000000)]\<rparr>"

definition mumbai :: TransactionConfig where
  "mumbai = \<lparr>confirmations = 3, overrides = []\<rparr>"

definition rinkarby :: TransactionConfig where
  "rinkarby = \<lparr>confirmations = 2,
     overrides = [(''gasPrice'', Number 0), (''gasLimit'', Number 600000000)]\<rparr>"

definition rinkeby :: TransactionConfig where
  "rinkeby = \<lparr>confirmations = 3, overrides = []\<rparr>"

definition ropsten :: TransactionConfig where
  "ropsten = \<lparr>confirmations = 3, overrides = [(''gasPrice'', BigNumber 10000000000)]\<rparr>"

definition configs :: "(string \<times> TransactionConfig) list" where
  "configs =
     [(''alfajores'', alfajores), (''fuji'', fuji), (''goerli'', goerli), (''kovan'', kovan),
      (''mumbai'', mumbai), (''rinkarby'', rinkarby), (''rinkeby'', rinkeby),
      (''ropsten'', ropsten)]"

text \<open>The two fee fields the table uses, and the shape a table entry is expected to have.\<close>

definition fee_fields :: "string list" where
  "fee_fields = [''gasPrice'', ''gasLimit'']"

definition well_formed :: "TransactionConfig \<Rightarrow> bool" where
  "well_formed c =
     (0 \<le> TransactionConfig.confirmations c \<and>
      list_all (\<lambda>f. f \<in> set fee_fields) (map fst (TransactionConfig.overrides c)))"


section \<open>Handles of the client library\<close>

text \<open>
  Providers and signers belong to the ethers library. What the registry reads of them is
  modelled here from the library's interface.

  A promise is modelled by how it settles: fulfilled, rejected, or never.
  \<^verbatim>\<open>provider.ready\<close> is such a promise.

  The number of a settled promise is the place of its settlement in the order in which
  the promises settle.
\<close>

type_synonym reason = string

datatype 'a promise = Fulfilled nat 'a | Rejected nat reason | Pending

type_synonym Network = nat

record BaseProvider =
  endpoint :: string
  ready :: "Network promise"

text \<open>
  The signers of the library: a wallet with its private key, a void signer with its
  address, both with the provider they were built with, if any, and the signer of an
  account of a JSON-RPC provider. \<^verbatim>\<open>Signer.provider\<close> is a read-only property.
\<close>

datatype Signer =
    Wallet string "BaseProvider option"
  | VoidSigner string "BaseProvider option"
  | JsonRpcSigner string BaseProvider

fun signer_provider :: "Signer \<Rightarrow> BaseProvider option" where
  "signer_provider (Wallet k q) = q"
| "signer_provider (VoidSigner a q) = q"
| "signer_provider (JsonRpcSigner a q) = Some q"

text \<open>
  A private key as a wallet holds it after a sound construction: \<^verbatim>\<open>0x\<close> and the 64
  hexadecimal digits of 32 bytes.
\<close>

definition is_hex_digit :: "char \<Rightarrow> bool" where
  "is_hex_digit c = (c \<in> set ''0123456789abcdefABCDEF'')"

definition is_private_key :: "string \<Rightarrow> bool" where
  "is_private_key k = (length k = 66 \<and> take 2 k = ''0x'' \<and> list_all is_hex_digit (drop 2 k))"

datatype error = TypeError | LookupError | InvalidArgument | UnsupportedOperation

text \<open>
  \<^verbatim>\<open>signer.connect(provider)\<close> returns a new signer connected to \<^verbatim>\<open>provider\<close> or
  throws; the signer it is called on stays as it was. \<^verbatim>\<open>Wallet.connect\<close> is
  \<^verbatim>\<open>return new Wallet(this, provider)\<close>, which takes the key of the wallet when that is a
  string of 32 bytes and otherwise throws an invalid-argument error on converting the
  wallet itself to a key; \<^verbatim>\<open>VoidSigner.connect\<close> is
  \<^verbatim>\<open>return new VoidSigner(this.address, provider)\<close>; \<^verbatim>\<open>JsonRpcSigner.connect\<close> always
  throws an unsupported-operation error.
\<close>

fun connect :: "Signer \<Rightarrow> BaseProvider \<Rightarrow> error + Signer" where
  "connect (Wallet k q) p =
     (if is_private_key k then Inr (Wallet k (Some p)) else Inl InvalidArgument)"
| "connect (VoidSigner a q) p = Inr (VoidSigner a (Some p))"
| "connect (JsonRpcSigner a q) p = Inl UnsupportedOperation"

text \<open>
  \<^verbatim>\<open>Promise.all\<close> rejects as soon as one of its promises rejects, with the reason of
  the promise that is rejected first; it is fulfilled with all the values once every
  promise is fulfilled; otherwise it stays pending. The promises it is given here are
  made by the call of \<^verbatim>\<open>ready\<close> itself and settle after it, each at a place of its own;
  that of two rejections at one place the one listed first is taken only makes the
  function total.
\<close>

fun earliest_rejection :: "'a promise list \<Rightarrow> (nat \<times> reason) option" where
  "earliest_rejection [] = None"
| "earliest_rejection (Rejected t e # ps) =
     (case earliest_rejection ps of
        None \<Rightarrow> Some (t, e)
      | Some (t', e') \<Rightarrow> if t' < t then Some (t', e') else Some (t, e))"
| "earliest_rejection (Fulfilled t v # ps) = earliest_rejection ps"
| "earliest_rejection (Pending # ps) = earliest_rejection ps"

fun fulfilment :: "'a promise list \<Rightarrow> (nat \<times> 'a list) option" where
  "fulfilment [] = Some (0, [])"
| "fulfilment (Fulfilled t v # ps) =
     (case fulfilment ps of None \<Rightarrow> None | Some (t', vs) \<Rightarrow> Some (max t t', v # vs))"
| "fulfilment (Rejected t e # ps) = None"
| "fulfilment (Pending # ps) = None"

definition Promise_all :: "'a promise list \<Rightarrow> 'a list promise" where
  "Promise_all ps =
     (case earliest_rejection ps of
        Some (t, e) \<Rightarrow> Rejected t e
      | None \<Rightarrow> (case fulfilment ps of Some (t, vs) \<Rightarrow> Fulfilled t vs | None \<Rightarrow> Pending))"


section \<open>The connection record\<close>

record IDomainConnection =
  provider :: "BaseProvider option"
  signer :: "Signer option"
  overrides :: "Overrides option"
  confirmations :: "int option"

record DomainConnection =
  provider :: "BaseProvider option"
  signer :: "Signer option"
  overrides :: Overrides
  confirmations :: int

text \<open>The object literal \<^verbatim>\<open>{}\<close>, the default argument of the constructor.\<close>

definition no_settings :: IDomainConnection where
  "no_settings = \<lparr>IDomainConnection.provider = None, signer = None, overrides = None,
     confirmations = None\<rparr>"

definition new_DomainConnection :: "IDomainConnection \<Rightarrow> DomainConnection" where
  "new_DomainConnection dc =
     \<lparr>DomainConnection.provider = IDomainConnection.provider dc,
      signer = IDomainConnection.signer dc,
      overrides = (case IDomainConnection.overrides dc of None \<Rightarrow> [] | Some ov \<Rightarrow> ov),
      confirmations = (case IDomainConnection.confirmations dc of None \<Rightarrow> 0 | Some c \<Rightarrow> c)\<rparr>"

text \<open>A call that assigns to a field of \<^verbatim>\<open>this\<close> is a function to the record after the call.\<close>

definition registerOverrides :: "DomainConnection \<Rightarrow> Overrides \<Rightarrow> DomainConnection" where
  "registerOverrides this ov = this\<lparr>DomainConnection.overrides := ov\<rparr>"

definition registerConfirmations :: "DomainConnection \<Rightarrow> int \<Rightarrow> DomainConnection" where
  "registerConfirmations this c = this\<lparr>DomainConnection.confirmations := c\<rparr>"

text \<open>
  Both registration methods call \<^verbatim>\<open>connect\<close> as a statement, before the assignment.
  When \<^verbatim>\<open>connect\<close> throws, the method ends there with the error and the record stays
  as it was. When it returns, the signer it returns is dropped, and the field is assigned
  the handle that was there before the call.
\<close>

definition registerProvider ::
  "DomainConnection \<Rightarrow> BaseProvider \<Rightarrow> error + DomainConnection"
where
  "registerProvider this p =
     (case DomainConnection.signer this of
        Some s \<Rightarrow>
          (case connect s p of
             Inl e \<Rightarrow> Inl e
           | Inr connected \<Rightarrow> Inr (this\<lparr>DomainConnection.provider := Some p\<rparr>))
      | None \<Rightarrow> Inr (this\<lparr>DomainConnection.provider := Some p\<rparr>))"

definition registerSigner :: "DomainConnection \<Rightarrow> Signer \<Rightarrow> error + DomainConnection" where
  "registerSigner this s =
     (case DomainConnection.provider this of
        Some p \<Rightarrow>
          (case connect s p of
             Inl e \<Rightarrow> Inl e
           | Inr connected \<Rightarrow> Inr (this\<lparr>DomainConnection.signer := Some s\<rparr>))
      | None \<Rightarrow> Inr (this\<lparr>DomainConnection.signer := Some s\<rparr>))"

datatype connection = SignerConnection Signer | ProviderConnection BaseProvider

definition getConnection :: "DomainConnection \<Rightarrow> connection option" where
  "getConnection this =
     (case DomainConnection.signer this of
        Some s \<Rightarrow> Some (SignerConnection s)
      | None \<Rightarrow> map_option ProviderConnection (DomainConnection.provider this))"

text \<open>
  The stored signer routes through the stored provider: the relation the two handles of a
  record are meant to have whenever both are there.
\<close>

fun routed :: "Signer option \<Rightarrow> BaseProvider option \<Rightarrow> bool" where
  "routed (Some s) (Some p) = (signer_provider s = Some p)"
| "routed (Some s) None = True"
| "routed None q = True"

definition associated :: "DomainConnection \<Rightarrow> bool" where
  "associated this = routed (DomainConnection.signer this) (DomainConnection.provider this)"


section \<open>The registry\<close>

text \<open>
  The registry is the object handed to the base class: a JavaScript object keyed by
  network names, kept as the list of its entries in property order. Network names are
  names, not numerals, so property order is insertion order. \<^verbatim>\<open>Object.fromEntries\<close>
  sets one property per entry, in turn: setting a key that is there already replaces its
  value where it stands, a new key is added at the end.
\<close>

type_synonym 'n MultiProvider = "('n \<times> DomainConnection) list"

definition fromEntries :: "('k \<times> 'v) list \<Rightarrow> ('k \<times> 'v) list" where
  "fromEntries es = foldl (\<lambda>obj (k, v). AList.update k v obj) [] es"

text \<open>
  The constructor takes an array of network names or an object from network names to
  partial settings; the object is given by its entries.
\<close>

datatype 'n networks = NetworkList "'n list" | NetworkMap "('n \<times> IDomainConnection) list"

definition new_MultiProvider :: "'n networks \<Rightarrow> 'n MultiProvider" where
  "new_MultiProvider networks =
     (let params = (case networks of
                      NetworkList ns \<Rightarrow> map (\<lambda>v. (v, no_settings)) ns
                    | NetworkMap m \<Rightarrow> m);
          providerEntries = map (\<lambda>(network, v). (network, new_DomainConnection v)) params
      in fromEntries providerEntries)"

text \<open>
  Modelled from the spec: the base class \<^verbatim>\<open>MultiGeneric\<close> of \<^verbatim>\<open>./utils\<close> is not among
  the sources. The spec gives it \<^verbatim>\<open>get\<close>, which returns the record of a network and
  fails with a lookup error for a network that was not part of construction, and
  \<^verbatim>\<open>entries\<close> and \<^verbatim>\<open>values\<close>, which list the registry in iteration order.
\<close>

definition MultiGeneric_get :: "'n MultiProvider \<Rightarrow> 'n \<Rightarrow> error + DomainConnection" where
  "MultiGeneric_get mp network =
     (case map_of mp network of None \<Rightarrow> Inl LookupError | Some dc \<Rightarrow> Inr dc)"

definition MultiGeneric_entries :: "'n MultiProvider \<Rightarrow> ('n \<times> DomainConnection) list" where
  "MultiGeneric_entries mp = mp"

definition MultiGeneric_values :: "'n MultiProvider \<Rightarrow> DomainConnection list" where
  "MultiGeneric_values mp = map snd mp"

definition getDomainConnection :: "'n MultiProvider \<Rightarrow> 'n \<Rightarrow> error + DomainConnection" where
  "getDomainConnection mp network = MultiGeneric_get mp network"

definition getChains :: "'n MultiProvider \<Rightarrow> 'n list \<Rightarrow> ('n \<times> DomainConnection) list" where
  "getChains mp query = filter (\<lambda>(chain, dc). chain \<in> set query) (MultiGeneric_entries mp)"

definition getAll :: "'n MultiProvider \<Rightarrow> DomainConnection list" where
  "getAll mp = MultiGeneric_values mp"

text \<open>
  \<^verbatim>\<open>ready\<close> reads \<^verbatim>\<open>dc.provider!.ready\<close> for every record; the \<^verbatim>\<open>!\<close> checks nothing at
  run time, so a record without provider makes the read throw a \<^verbatim>\<open>TypeError\<close> before
  any promise is returned.
\<close>

fun ready_promises :: "DomainConnection list \<Rightarrow> error + Network promise list" where
  "ready_promises [] = Inr []"
| "ready_promises (dc # dcs) =
     (case DomainConnection.provider dc of
        None \<Rightarrow> Inl TypeError
      | Some p \<Rightarrow> (case ready_promises dcs of
                    Inl e \<Rightarrow> Inl e
                  | Inr ps \<Rightarrow> Inr (BaseProvider.ready p # ps)))"

definition MultiProvider_ready :: "'n MultiProvider \<Rightarrow> error + Network list promise" where
  "MultiProvider_ready mp =
     (case ready_promises (MultiGeneric_values mp) of
        Inl e \<Rightarrow> Inl e
      | Inr ps \<Rightarrow> Inr (Promise_all ps))"

text \<open>
  The registry has no mutators of its own: a field of one network is set by
  \<^verbatim>\<open>mp.getDomainConnection(network).register...(v)\<close>, which changes the record the registry
  holds in place. The constructor makes a fresh record per network, so no two networks
  share one.
\<close>

definition at_network ::
  "'n MultiProvider \<Rightarrow> 'n \<Rightarrow> (DomainConnection \<Rightarrow> DomainConnection) \<Rightarrow> error + 'n MultiProvider"
where
  "at_network mp network register =
     (case getDomainConnection mp network of
        Inl e \<Rightarrow> Inl e
      | Inr dc \<Rightarrow> Inr (AList.update network (register dc) mp))"


section \<open>Names and examples used in the statements\<close>

text \<open>The network names a constructor argument mentions.\<close>

definition network_names :: "'n networks \<Rightarrow> 'n list" where
  "network_names networks = (case networks of NetworkList ns \<Rightarrow> ns | NetworkMap m \<Rightarrow> map fst m)"

text \<open>
  A provider, a wallet as \<^verbatim>\<open>new ethers.Wallet(key)\<close> builds it from a key of 32 bytes
  (no provider), a settings object and a registry to evaluate the operations on.
\<close>

definition local_rpc :: BaseProvider where
  "local_rpc = \<lparr>endpoint = ''http://127.0.0.1:8545'', ready = Fulfilled 1 44787\<rparr>"

definition example_key :: string where
  "example_key = ''0x0123456789abcdef0123456789abcdef0123456789abcdef0123456789abcdef''"

definition example_wallet :: Signer where
  "example_wallet = Wallet example_key None"

definition example_settings :: "(string \<times> IDomainConnection) list" where
  "example_settings =
     [(''goerli'', \<lparr>IDomainConnection.provider = Some local_rpc, signer = None,
                    overrides = Some [(''gasPrice'', BigNumber 10000000000)],
                    confirmations = None\<rparr>),
      (''kovan'', \<lparr>IDomainConnection.provider = None, signer = Some example_wallet,
                   overrides = None, confirmations = Some 3\<rparr>)]"

definition example_registry :: "string MultiProvider" where
  "example_registry = new_MultiProvider (NetworkList [''alfajores'', ''fuji''])"


text \<open>How a promise has settled, and what that says of the provider of a record.\<close>

fun is_fulfilled :: "'a promise \<Rightarrow> bool" where
  "is_fulfilled (Fulfilled t v) = True"
| "is_fulfilled (Rejected t e) = False"
| "is_fulfilled Pending = False"

fun is_rejected :: "'a promise \<Rightarrow> bool" where
  "is_rejected (Rejected t e) = True"
| "is_rejected (Fulfilled t v) = False"
| "is_rejected Pending = False"

definition unregistered :: "DomainConnection \<Rightarrow> bool" where
  "unregistered dc = (DomainConnection.provider dc = None)"

definition reachable :: "DomainConnection \<Rightarrow> bool" where
  "reachable dc =
     (case DomainConnection.provider dc of
        None \<Rightarrow> False
      | Some p \<Rightarrow> is_fulfilled (BaseProvider.ready p))"

definition unreachable :: "DomainConnection \<Rightarrow> bool" where
  "unreachable dc =
     (case DomainConnection.provider dc of
        None \<Rightarrow> False
      | Some p \<Rightarrow> is_rejected (BaseProvider.ready p))"

text \<open>A provider whose network cannot be reached, and registries holding it or not.\<close>

definition down_rpc :: BaseProvider where
  "down_rpc = \<lparr>endpoint = ''http://127.0.0.1:8546'', ready = Rejected 2 ''could not detect network''\<rparr>"

definition settings_with :: "BaseProvider \<Rightarrow> IDomainConnection" where
  "settings_with p = \<lparr>IDomainConnection.provider = Some p, signer = None, overrides = None,
     confirmations = None\<rparr>"

definition reachable_registry :: "string MultiProvider" where
  "reachable_registry =
     new_MultiProvider (NetworkMap [(''goerli'', settings_with local_rpc),
                                    (''kovan'', settings_with local_rpc)])"

definition unreachable_registry :: "string MultiProvider" where
  "unreachable_registry =
     new_MultiProvider (NetworkMap [(''goerli'', settings_with local_rpc),
                                    (''kovan'', settings_with down_rpc)])"


section \<open>Object.fromEntries on entry lists\<close>

lemma update_fresh: "k \<notin> fst ` set al \<Longrightarrow> AList.update k v al = al @ [(k, v)]"
  by (induction al) auto

lemma foldl_update_distinct:
  "distinct (map fst (acc @ es)) \<Longrightarrow>
     foldl (\<lambda>obj (k, v). AList.update k v obj) acc es = acc @ es"
proof (induction es arbitrary: acc)
  case Nil
  then show ?case by simp
next
  case (Cons e es)
  obtain k v where e: "e = (k, v)" by (cases e)
  from Cons.prems have fresh: "k \<notin> fst ` set acc" by (auto simp: e)
  from Cons.prems have "distinct (map fst ((acc @ [(k, v)]) @ es))" by (auto simp: e)
  then have "foldl (\<lambda>obj (k, v). AList.update k v obj) (acc @ [(k, v)]) es = (acc @ [(k, v)]) @ es"
    by (rule Cons.IH)
  with fresh show ?case by (simp add: e update_fresh)
qed

lemma fromEntries_distinct: "distinct (map fst es) \<Longrightarrow> fromEntries es = es"
  using foldl_update_distinct [of "[]" es] by (simp add: fromEntries_def)

lemma foldl_update_map_of:
  "map_of (foldl (\<lambda>obj (k, v). AList.update k v obj) acc es) = map_of acc ++ map_of (rev es)"
proof (induction es arbitrary: acc)
  case Nil
  then show ?case by simp
next
  case (Cons e es)
  obtain k v where e: "e = (k, v)" by (cases e)
  have "(map_of acc)(k \<mapsto> v) = map_of acc ++ [k \<mapsto> v]" by simp
  then show ?case
    by (simp only: e foldl_Cons prod.case Cons.IH AList.update_conv' rev.simps map_of_append map_add_assoc map_of.simps fst_conv snd_conv)
qed

lemma map_of_fromEntries: "map_of (fromEntries es) = map_of (rev es)"
  by (simp add: fromEntries_def foldl_update_map_of)

lemma foldl_update_dom:
  "fst ` set (foldl (\<lambda>obj (k, v). AList.update k v obj) acc es) = fst ` set acc \<union> fst ` set es"
proof (induction es arbitrary: acc)
  case Nil
  then show ?case by simp
next
  case (Cons e es)
  obtain k v where e: "e = (k, v)" by (cases e)
  show ?case by (simp add: e Cons.IH AList.dom_update)
qed

lemma dom_fromEntries: "fst ` set (fromEntries es) = fst ` set es"
  by (simp add: fromEntries_def foldl_update_dom)

lemma foldl_update_distinct_keys:
  "distinct (map fst acc) \<Longrightarrow>
     distinct (map fst (foldl (\<lambda>obj (k, v). AList.update k v obj) acc es))"
  by (induction es arbitrary: acc) (auto simp: AList.distinct_update)

lemma distinct_fromEntries: "distinct (map fst (fromEntries es))"
  by (simp add: fromEntries_def foldl_update_distinct_keys)

lemma remdups_snoc: "remdups (xs @ [k]) = filter (\<lambda>x. x \<noteq> k) (remdups xs) @ [k]"
  by (induction xs) auto

lemma first_occurrences_Cons:
  "rev (remdups (rev (k # ks))) = k # filter (\<lambda>x. x \<noteq> k) (rev (remdups (rev ks)))"
  by (simp add: remdups_snoc rev_filter)

lemma foldl_update_keys:
  "map fst (foldl (\<lambda>obj (k, v). AList.update k v obj) acc es) =
     map fst acc @ filter (\<lambda>k. k \<notin> set (map fst acc)) (rev (remdups (rev (map fst es))))"
proof (induction es arbitrary: acc)
  case Nil
  then show ?case by simp
next
  case (Cons e es)
  obtain k v where e: "e = (k, v)" by (cases e)
  let ?ks = "rev (remdups (rev (map fst es)))"
  show ?case
  proof (cases "k \<in> set (map fst acc)")
    case True
    then have "filter (\<lambda>x. x \<notin> set (map fst acc)) (filter (\<lambda>x. x \<noteq> k) ?ks)
       = filter (\<lambda>x. x \<notin> set (map fst acc)) ?ks"
      by (auto intro: filter_cong)
    with True show ?thesis
      using first_occurrences_Cons [of k "map fst es"]
      by (simp add: e Cons.IH AList.update_keys del: rev.simps)
  next
    case False
    have "filter (\<lambda>x. x \<noteq> k \<and> x \<notin> set (map fst acc)) ?ks
       = filter (\<lambda>x. x \<notin> set (map fst acc)) (filter (\<lambda>x. x \<noteq> k) ?ks)"
      by (auto intro: filter_cong)
    with False show ?thesis
      using first_occurrences_Cons [of k "map fst es"]
      by (simp add: e Cons.IH AList.update_keys del: rev.simps)
  qed
qed

lemma keys_fromEntries: "map fst (fromEntries es) = rev (remdups (rev (map fst es)))"
  using foldl_update_keys [of "[]" es] by (simp add: fromEntries_def)

section \<open>Construction of the registry\<close>

lemma new_MultiProvider_NetworkList:
  "new_MultiProvider (NetworkList ns) =
     fromEntries (map (\<lambda>n. (n, new_DomainConnection no_settings)) ns)"
  by (simp add: new_MultiProvider_def o_def)

lemma new_MultiProvider_NetworkMap:
  "new_MultiProvider (NetworkMap m) =
     fromEntries (map (\<lambda>(n, v). (n, new_DomainConnection v)) m)"
  by (simp add: new_MultiProvider_def)

lemma keys_of_records: "map fst (map (\<lambda>(n, v). (n, f v)) m) = map fst m"
  by (induction m) auto

lemma keys_new_MultiProvider:
  "fst ` set (new_MultiProvider networks) = set (network_names networks)"
proof (cases networks)
  case (NetworkList ns)
  then show ?thesis
    by (simp add: new_MultiProvider_NetworkList dom_fromEntries network_names_def image_image)
next
  case (NetworkMap m)
  have "fst ` set (map (\<lambda>(n, v). (n, new_DomainConnection v)) m) = fst ` set m"
    by (induction m) auto
  with NetworkMap show ?thesis
    by (simp add: new_MultiProvider_NetworkMap dom_fromEntries network_names_def)
qed

section \<open>The static table\<close>

text \<open>
  C9. Every network of the static table (alfajores, fuji, goerli, kovan, mumbai, rinkarby,
  rinkeby, ropsten) has a confirmation count that is a non-negative integer, and its
  overrides name no field other than \<^verbatim>\<open>gasPrice\<close> and \<^verbatim>\<open>gasLimit\<close>.
\<close>
theorem configs_well_formed:
  "map fst configs =
     [''alfajores'', ''fuji'', ''goerli'', ''kovan'', ''mumbai'', ''rinkarby'', ''rinkeby'',
      ''ropsten''] \<and>
   list_all (\<lambda>(network, c). well_formed c) configs"
  by (simp add: configs_def well_formed_def fee_fields_def alfajores_def fuji_def goerli_def
      kovan_def mumbai_def rinkarby_def rinkeby_def ropsten_def)

section \<open>The preferred connection of a record\<close>

text \<open>
  C3. \<^verbatim>\<open>getConnection\<close> returns the signer of every record that has one, whatever its
  provider; the provider of a record with a provider and no signer; and nothing for a
  record with neither.
\<close>
theorem getConnection_precedence:
  "getConnection (this\<lparr>DomainConnection.signer := Some s\<rparr>) = Some (SignerConnection s) \<and>
   getConnection (this\<lparr>DomainConnection.signer := None, DomainConnection.provider := Some p\<rparr>) =
     Some (ProviderConnection p) \<and>
   getConnection (this\<lparr>DomainConnection.signer := None, DomainConnection.provider := None\<rparr>) = None"
  by (simp add: getConnection_def)

section \<open>Records of a constructed registry\<close>

text \<open>
  C4. Constructing the registry from a list of \<open>N\<close> distinct network names gives \<open>N\<close>
  records, one per name and in the order of the list, each without provider and signer,
  with empty overrides and with confirmations 0.
\<close>
theorem new_MultiProvider_of_list:
  "distinct ns \<Longrightarrow>
     new_MultiProvider (NetworkList ns) =
       map (\<lambda>n. (n, \<lparr>DomainConnection.provider = None, signer = None, overrides = [],
                     confirmations = 0\<rparr>)) ns \<and>
     length (getAll (new_MultiProvider (NetworkList ns))) = length ns"
proof -
  assume d: "distinct ns"
  have "map fst (map (\<lambda>n. (n, new_DomainConnection no_settings)) ns) = ns"
    by (simp add: o_def)
  with d have "fromEntries (map (\<lambda>n. (n, new_DomainConnection no_settings)) ns) =
      map (\<lambda>n. (n, new_DomainConnection no_settings)) ns"
    by (simp add: fromEntries_distinct)
  then show ?thesis
    by (simp add: new_MultiProvider_NetworkList new_DomainConnection_def no_settings_def
        getAll_def MultiGeneric_values_def)
qed

theorem new_MultiProvider_of_list_witness:
  "distinct [''alfajores'', ''fuji''] \<and>
   new_MultiProvider (NetworkList [''alfajores'', ''fuji'']) =
     [(''alfajores'', \<lparr>DomainConnection.provider = None, signer = None, overrides = [],
                       confirmations = 0\<rparr>),
      (''fuji'', \<lparr>DomainConnection.provider = None, signer = None, overrides = [],
                  confirmations = 0\<rparr>)] \<and>
   length (getAll (new_MultiProvider (NetworkList [''alfajores'', ''fuji'']))) = 2"
proof -
  have d: "distinct [''alfajores'', ''fuji'']" by simp
  show ?thesis using d new_MultiProvider_of_list [OF d]
    by (simp add: getAll_def MultiGeneric_values_def)
qed

text \<open>
  C10. Constructing the registry from a list with repeated names succeeds and keeps one
  record per distinct name: the keys are distinct, they are the names of the list, each at
  the place of its first occurrence, and \<^verbatim>\<open>Object.fromEntries\<close> keeps for a key the value
  of its last entry.
\<close>
theorem repeated_names_one_record_each:
  "distinct (map fst (new_MultiProvider (NetworkList ns))) \<and>
   set (map fst (new_MultiProvider (NetworkList ns))) = set ns \<and>
   length (new_MultiProvider (NetworkList ns)) = card (set ns) \<and>
   map fst (new_MultiProvider (NetworkList ns)) = rev (remdups (rev ns)) \<and>
   map_of (fromEntries es) = map_of (rev es)"
proof -
  let ?mp = "new_MultiProvider (NetworkList ns)"
  have d: "distinct (map fst ?mp)"
    by (simp only: new_MultiProvider_NetworkList distinct_fromEntries)
  have s: "set (map fst ?mp) = set ns"
    using keys_new_MultiProvider [of "NetworkList ns"] by (simp add: network_names_def)
  have "length ?mp = length (map fst ?mp)" by simp
  also have "\<dots> = card (set (map fst ?mp))" using d by (simp only: distinct_card)
  finally have l: "length ?mp = card (set ns)" using s by simp
  have k: "map fst ?mp = rev (remdups (rev ns))"
    by (simp add: new_MultiProvider_NetworkList keys_fromEntries o_def)
  from d s l k show ?thesis by (simp only: map_of_fromEntries simp_thms)
qed

text \<open>
  C5. Constructing the registry from an object of partial settings gives one record per
  entry, in the order of the entries; a record keeps every field its entry supplies, and
  a field the entry leaves out gets the default of list construction (no provider, no
  signer, empty overrides, confirmations 0).
\<close>
theorem new_MultiProvider_of_map:
  "distinct (map fst m) \<Longrightarrow>
     map fst (new_MultiProvider (NetworkMap m)) = map fst m \<and>
     (\<forall>(n, v) \<in> set m. \<exists>dc. (n, dc) \<in> set (new_MultiProvider (NetworkMap m)) \<and>
        DomainConnection.provider dc = IDomainConnection.provider v \<and>
        DomainConnection.signer dc = IDomainConnection.signer v \<and>
        DomainConnection.overrides dc =
          (case IDomainConnection.overrides v of Some ov \<Rightarrow> ov | None \<Rightarrow> []) \<and>
        DomainConnection.confirmations dc =
          (case IDomainConnection.confirmations v of Some c \<Rightarrow> c | None \<Rightarrow> 0))"
proof -
  assume d: "distinct (map fst m)"
  let ?es = "map (\<lambda>(n, v). (n, new_DomainConnection v)) m"
  have k: "map fst ?es = map fst m" by (rule keys_of_records)
  with d have "fromEntries ?es = ?es" by (simp only: fromEntries_distinct)
  then have eq: "new_MultiProvider (NetworkMap m) = ?es"
    by (simp only: new_MultiProvider_NetworkMap)
  have "\<exists>dc. (n, dc) \<in> set ?es \<and>
        DomainConnection.provider dc = IDomainConnection.provider v \<and>
        DomainConnection.signer dc = IDomainConnection.signer v \<and>
        DomainConnection.overrides dc =
          (case IDomainConnection.overrides v of Some ov \<Rightarrow> ov | None \<Rightarrow> []) \<and>
        DomainConnection.confirmations dc =
          (case IDomainConnection.confirmations v of Some c \<Rightarrow> c | None \<Rightarrow> 0)"
    if "(n, v) \<in> set m" for n v
  proof (intro exI conjI)
    from that show "(n, new_DomainConnection v) \<in> set ?es" by force
  qed (simp_all add: new_DomainConnection_def)
  with k show ?thesis unfolding eq by blast
qed

theorem new_MultiProvider_of_map_witness:
  "distinct (map fst example_settings) \<and>
   map fst (new_MultiProvider (NetworkMap example_settings)) = [''goerli'', ''kovan''] \<and>
   (\<exists>dc. (''goerli'', dc) \<in> set (new_MultiProvider (NetworkMap example_settings)) \<and>
      DomainConnection.provider dc = Some local_rpc \<and>
      DomainConnection.signer dc = None \<and>
      DomainConnection.overrides dc = [(''gasPrice'', BigNumber 10000000000)] \<and>
      DomainConnection.confirmations dc = 0)"
proof -
  have d: "distinct (map fst example_settings)" by (simp add: example_settings_def)
  show ?thesis using d new_MultiProvider_of_map [OF d]
    by (simp add: example_settings_def)
qed

section \<open>Selecting and looking up networks\<close>

text \<open>
  C6. \<^verbatim>\<open>getChains\<close> returns exactly the entries of the registry whose name is in the query
  list, in the order of the registry, which is the order of insertion at construction;
  a queried name the registry does not have changes nothing, and the call cannot fail.
\<close>
theorem getChains_selects_in_order:
  "distinct ns \<Longrightarrow>
     set (getChains mp query) =
       {(n, dc). (n, dc) \<in> set (MultiGeneric_entries mp) \<and> n \<in> set query} \<and>
     subseq (getChains mp query) (MultiGeneric_entries mp) \<and>
     getChains mp (filter (\<lambda>n. n \<in> fst ` set (MultiGeneric_entries mp)) query) =
       getChains mp query \<and>
     map fst (getChains (new_MultiProvider (NetworkList ns)) query) =
       filter (\<lambda>n. n \<in> set query) ns"
proof -
  assume d: "distinct ns"
  have a: "set (getChains mp query) =
       {(n, dc). (n, dc) \<in> set (MultiGeneric_entries mp) \<and> n \<in> set query}"
    by (auto simp: getChains_def)
  have b: "subseq (getChains mp query) (MultiGeneric_entries mp)"
    by (simp add: getChains_def)
  have c: "getChains mp (filter (\<lambda>n. n \<in> fst ` set (MultiGeneric_entries mp)) query) =
       getChains mp query"
    unfolding getChains_def by (rule filter_cong) force+
  have "new_MultiProvider (NetworkList ns) =
      map (\<lambda>n. (n, new_DomainConnection no_settings)) ns"
    using d by (simp add: new_MultiProvider_NetworkList fromEntries_distinct o_def)
  then have "map fst (getChains (new_MultiProvider (NetworkList ns)) query) =
       filter (\<lambda>n. n \<in> set query) ns"
    by (simp add: getChains_def MultiGeneric_entries_def filter_map o_def)
  with a b c show ?thesis by (simp only: simp_thms)
qed

theorem getChains_selects_in_order_witness:
  "distinct [''alfajores'', ''fuji'', ''goerli''] \<and>
   map fst (getChains (new_MultiProvider (NetworkList [''alfajores'', ''fuji'', ''goerli'']))
              [''goerli'', ''kovan'', ''alfajores'']) = [''alfajores'', ''goerli'']"
proof -
  have d: "distinct [''alfajores'', ''fuji'', ''goerli'']" by simp
  show ?thesis
    using d getChains_selects_in_order [OF d, where query = "[''goerli'', ''kovan'', ''alfajores'']"]
    by simp
qed

text \<open>
  C8. For a network that was part of construction \<^verbatim>\<open>getDomainConnection\<close> returns the
  record the registry holds for it; for any other network it fails with a lookup error.
\<close>
theorem getDomainConnection_of_constructed:
  "(network \<in> set (network_names networks) \<longrightarrow>
      (\<exists>dc. getDomainConnection (new_MultiProvider networks) network = Inr dc \<and>
            (network, dc) \<in> set (MultiGeneric_entries (new_MultiProvider networks)))) \<and>
   (network \<notin> set (network_names networks) \<longrightarrow>
      getDomainConnection (new_MultiProvider networks) network = Inl LookupError)"
proof (intro conjI impI)
  let ?mp = "new_MultiProvider networks"
  assume "network \<in> set (network_names networks)"
  then have "network \<in> fst ` set ?mp" by (simp add: keys_new_MultiProvider)
  then obtain dc where m: "map_of ?mp network = Some dc"
    by (cases "map_of ?mp network") (auto simp: map_of_eq_None_iff)
  then have "(network, dc) \<in> set ?mp" by (rule map_of_SomeD)
  with m show "\<exists>dc. getDomainConnection ?mp network = Inr dc \<and>
      (network, dc) \<in> set (MultiGeneric_entries ?mp)"
    by (simp add: getDomainConnection_def MultiGeneric_get_def MultiGeneric_entries_def)
next
  let ?mp = "new_MultiProvider networks"
  assume "network \<notin> set (network_names networks)"
  then have "network \<notin> fst ` set ?mp" by (simp add: keys_new_MultiProvider)
  then have "map_of ?mp network = None" by (simp add: map_of_eq_None_iff)
  then show "getDomainConnection ?mp network = Inl LookupError"
    by (simp add: getDomainConnection_def MultiGeneric_get_def)
qed

theorem getDomainConnection_of_constructed_witness:
  "''fuji'' \<in> set (network_names (NetworkList [''alfajores'', ''fuji''])) \<and>
   (\<exists>dc. getDomainConnection (new_MultiProvider (NetworkList [''alfajores'', ''fuji''])) ''fuji''
            = Inr dc) \<and>
   ''kovan'' \<notin> set (network_names (NetworkList [''alfajores'', ''fuji''])) \<and>
   getDomainConnection (new_MultiProvider (NetworkList [''alfajores'', ''fuji''])) ''kovan''
     = Inl LookupError"
proof -
  have i: "''fuji'' \<in> set (network_names (NetworkList [''alfajores'', ''fuji'']))"
    by (simp add: network_names_def)
  have o: "''kovan'' \<notin> set (network_names (NetworkList [''alfajores'', ''fuji'']))"
    by (simp add: network_names_def)
  show ?thesis
    using i o
      getDomainConnection_of_constructed [of "''fuji''" "NetworkList [''alfajores'', ''fuji'']"]
      getDomainConnection_of_constructed [of "''kovan''" "NetworkList [''alfajores'', ''fuji'']"]
    by blast
qed


section \<open>Setting a field of one network\<close>

lemma get_after_update:
  "getDomainConnection (AList.update network dc mp) other =
     (if other = network then Inr dc else getDomainConnection mp other)"
  by (simp add: getDomainConnection_def MultiGeneric_get_def AList.update_conv')

lemma at_network_found:
  "getDomainConnection mp network = Inr dc \<Longrightarrow>
     at_network mp network register = Inr (AList.update network (register dc) mp)"
  by (simp add: at_network_def)

lemma keys_after_update:
  assumes "getDomainConnection mp network = Inr dc"
  shows "map fst (AList.update network dc' mp) = map fst mp"
proof -
  from assms have "map_of mp network \<noteq> None"
    by (auto simp: getDomainConnection_def MultiGeneric_get_def split: option.splits)
  then have "network \<in> set (map fst mp)" by (simp add: map_of_eq_None_iff)
  then show ?thesis by (simp only: AList.update_keys if_True)
qed

text \<open>
  C7. Setting the confirmations or the overrides of a network that the registry has
  replaces that field of its record by the given value, whatever the field held before;
  the other fields of the record, the records of all other networks and the order of the
  registry stay as they were. On the registry of \<^verbatim>\<open>["alfajores", "fuji"]\<close>, setting the
  confirmations of alfajores to 5 leaves those of fuji at 0.
\<close>
theorem register_replaces_one_field:
  "getDomainConnection mp network = Inr dc \<Longrightarrow>
     (\<exists>mp' dc'. at_network mp network (\<lambda>this. registerConfirmations this c) = Inr mp' \<and>
        getDomainConnection mp' network = Inr dc' \<and>
        DomainConnection.confirmations dc' = c \<and>
        DomainConnection.overrides dc' = DomainConnection.overrides dc \<and>
        DomainConnection.provider dc' = DomainConnection.provider dc \<and>
        DomainConnection.signer dc' = DomainConnection.signer dc \<and>
        map fst mp' = map fst mp \<and>
        (\<forall>other. other \<noteq> network \<longrightarrow>
           getDomainConnection mp' other = getDomainConnection mp other)) \<and>
     (\<exists>mp' dc'. at_network mp network (\<lambda>this. registerOverrides this ov) = Inr mp' \<and>
        getDomainConnection mp' network = Inr dc' \<and>
        DomainConnection.overrides dc' = ov \<and>
        DomainConnection.confirmations dc' = DomainConnection.confirmations dc \<and>
        DomainConnection.provider dc' = DomainConnection.provider dc \<and>
        DomainConnection.signer dc' = DomainConnection.signer dc \<and>
        map fst mp' = map fst mp \<and>
        (\<forall>other. other \<noteq> network \<longrightarrow>
           getDomainConnection mp' other = getDomainConnection mp other))"
proof -
  assume g: "getDomainConnection mp network = Inr dc"
  have "\<exists>mp'. at_network mp network register = Inr mp' \<and>
        getDomainConnection mp' network = Inr (register dc) \<and>
        map fst mp' = map fst mp \<and>
        (\<forall>other. other \<noteq> network \<longrightarrow>
           getDomainConnection mp' other = getDomainConnection mp other)" for register
    using at_network_found [OF g] keys_after_update [OF g] by (simp add: get_after_update)
  then obtain mp1 mp2 where
    c1: "at_network mp network (\<lambda>this. registerConfirmations this c) = Inr mp1"
      "getDomainConnection mp1 network = Inr (registerConfirmations dc c)"
      "map fst mp1 = map fst mp"
      "\<forall>other. other \<noteq> network \<longrightarrow>
         getDomainConnection mp1 other = getDomainConnection mp other" and
    c2: "at_network mp network (\<lambda>this. registerOverrides this ov) = Inr mp2"
      "getDomainConnection mp2 network = Inr (registerOverrides dc ov)"
      "map fst mp2 = map fst mp"
      "\<forall>other. other \<noteq> network \<longrightarrow>
         getDomainConnection mp2 other = getDomainConnection mp other"
    by metis
  show ?thesis
  proof (rule conjI)
    show "\<exists>mp' dc'. at_network mp network (\<lambda>this. registerConfirmations this c) = Inr mp' \<and>
        getDomainConnection mp' network = Inr dc' \<and>
        DomainConnection.confirmations dc' = c \<and>
        DomainConnection.overrides dc' = DomainConnection.overrides dc \<and>
        DomainConnection.provider dc' = DomainConnection.provider dc \<and>
        DomainConnection.signer dc' = DomainConnection.signer dc \<and>
        map fst mp' = map fst mp \<and>
        (\<forall>other. other \<noteq> network \<longrightarrow>
           getDomainConnection mp' other = getDomainConnection mp other)"
      using c1
      by (intro exI [of _ mp1] exI [of _ "registerConfirmations dc c"])
        (simp add: registerConfirmations_def)
    show "\<exists>mp' dc'. at_network mp network (\<lambda>this. registerOverrides this ov) = Inr mp' \<and>
        getDomainConnection mp' network = Inr dc' \<and>
        DomainConnection.overrides dc' = ov \<and>
        DomainConnection.confirmations dc' = DomainConnection.confirmations dc \<and>
        DomainConnection.provider dc' = DomainConnection.provider dc \<and>
        DomainConnection.signer dc' = DomainConnection.signer dc \<and>
        map fst mp' = map fst mp \<and>
        (\<forall>other. other \<noteq> network \<longrightarrow>
           getDomainConnection mp' other = getDomainConnection mp other)"
      using c2
      by (intro exI [of _ mp2] exI [of _ "registerOverrides dc ov"])
        (simp add: registerOverrides_def)
  qed
qed

theorem register_replaces_one_field_witness:
  "getDomainConnection example_registry ''alfajores'' = Inr (new_DomainConnection no_settings) \<and>
   (\<exists>mp' dc' fj. at_network example_registry ''alfajores'' (\<lambda>this. registerConfirmations this 5)
         = Inr mp' \<and>
      getDomainConnection mp' ''alfajores'' = Inr dc' \<and>
      DomainConnection.confirmations dc' = 5 \<and>
      getDomainConnection mp' ''fuji'' = Inr fj \<and>
      DomainConnection.confirmations fj = 0)"
proof -
  have g: "getDomainConnection example_registry ''alfajores'' = Inr (new_DomainConnection no_settings)"
    by (simp add: example_registry_def new_MultiProvider_def fromEntries_def
        getDomainConnection_def MultiGeneric_get_def)
  have f: "getDomainConnection example_registry ''fuji'' = Inr (new_DomainConnection no_settings)"
    by (simp add: example_registry_def new_MultiProvider_def fromEntries_def
        getDomainConnection_def MultiGeneric_get_def)
  have z: "DomainConnection.confirmations (new_DomainConnection no_settings) = 0"
    by (simp add: new_DomainConnection_def no_settings_def)
  from register_replaces_one_field [OF g, of 5 "[]"]
  obtain mp' dc' where
    "at_network example_registry ''alfajores'' (\<lambda>this. registerConfirmations this 5) = Inr mp'"
    "getDomainConnection mp' ''alfajores'' = Inr dc'"
    "DomainConnection.confirmations dc' = 5"
    "\<forall>other. other \<noteq> ''alfajores'' \<longrightarrow>
        getDomainConnection mp' other = getDomainConnection example_registry other"
    by blast
  moreover from this f have "getDomainConnection mp' ''fuji'' = Inr (new_DomainConnection no_settings)"
    by simp
  ultimately show ?thesis using g z by blast
qed

section \<open>Registering a provider and a signer\<close>

lemma is_private_key_example: "is_private_key example_key"
  by (simp add: is_private_key_def example_key_def is_hex_digit_def)

lemma registerProvider_stores_provider:
  "registerProvider this p = Inr r \<Longrightarrow> r = this\<lparr>DomainConnection.provider := Some p\<rparr>"
  by (auto simp: registerProvider_def split: option.splits sum.splits)

lemma registerSigner_stores_argument:
  "registerSigner this s = Inr r \<Longrightarrow> r = this\<lparr>DomainConnection.signer := Some s\<rparr>"
  by (auto simp: registerSigner_def split: option.splits sum.splits)

lemma registerProvider_returns_iff:
  "(\<exists>r. registerProvider this p = Inr r) =
     (case DomainConnection.signer this of None \<Rightarrow> True | Some s \<Rightarrow> \<exists>c. connect s p = Inr c)"
  by (auto simp: registerProvider_def split: option.splits sum.splits)

lemma registerSigner_returns_iff:
  "(\<exists>r. registerSigner this s = Inr r) =
     (case DomainConnection.provider this of None \<Rightarrow> True | Some p \<Rightarrow> \<exists>c. connect s p = Inr c)"
  by (auto simp: registerSigner_def split: option.splits sum.splits)

lemma registerSigner_drops_connection:
  "DomainConnection.provider this = Some p \<Longrightarrow> signer_provider s \<noteq> Some p \<Longrightarrow>
     registerSigner this s = Inr r \<Longrightarrow> \<not> associated r"
  by (auto simp: associated_def dest!: registerSigner_stores_argument)

lemma registerProvider_drops_connection:
  "DomainConnection.signer this = Some s \<Longrightarrow> signer_provider s \<noteq> Some p \<Longrightarrow>
     registerProvider this p = Inr r \<Longrightarrow> \<not> associated r"
  by (auto simp: associated_def dest!: registerProvider_stores_provider)

text \<open>
  C1. After a provider and a signer have both been registered the stored signer should
  route through the stored provider. It does not. For a wallet with a key of 32 bytes and
  no provider, \<^verbatim>\<open>connect\<close> returns a connected wallet, both methods return, in either
  order, and both orders end in the same record; but the connected wallet is dropped, so
  the record holds the provider and the wallet as it was passed, which has no provider.
\<close>
theorem wallet_stays_unconnected:
  "connect example_wallet local_rpc = Inr (Wallet example_key (Some local_rpc)) \<and>
   registerProvider (new_DomainConnection no_settings) local_rpc =
     Inr \<lparr>DomainConnection.provider = Some local_rpc, signer = None, overrides = [],
          confirmations = 0\<rparr> \<and>
   registerSigner
       \<lparr>DomainConnection.provider = Some local_rpc, signer = None, overrides = [],
        confirmations = 0\<rparr> example_wallet =
     Inr \<lparr>DomainConnection.provider = Some local_rpc, signer = Some example_wallet,
          overrides = [], confirmations = 0\<rparr> \<and>
   registerSigner (new_DomainConnection no_settings) example_wallet =
     Inr \<lparr>DomainConnection.provider = None, signer = Some example_wallet, overrides = [],
          confirmations = 0\<rparr> \<and>
   registerProvider
       \<lparr>DomainConnection.provider = None, signer = Some example_wallet, overrides = [],
        confirmations = 0\<rparr> local_rpc =
     Inr \<lparr>DomainConnection.provider = Some local_rpc, signer = Some example_wallet,
          overrides = [], confirmations = 0\<rparr> \<and>
   signer_provider example_wallet = None \<and>
   \<not> associated
       \<lparr>DomainConnection.provider = Some local_rpc, signer = Some example_wallet,
        overrides = [], confirmations = 0\<rparr>"
proof -
  have c: "connect example_wallet local_rpc = Inr (Wallet example_key (Some local_rpc))"
    using is_private_key_example by (simp add: example_wallet_def)
  have n: "signer_provider example_wallet = None"
    by (simp add: example_wallet_def)
  from c n show ?thesis
    by (simp add: registerProvider_def registerSigner_def new_DomainConnection_def
        no_settings_def associated_def)
qed


section \<open>Readiness of the registry\<close>

lemma ready_promises_unregistered:
  "list_ex unregistered dcs \<Longrightarrow> ready_promises dcs = Inl TypeError"
  by (induction dcs) (auto simp: unregistered_def split: option.split sum.split)

lemma ready_promises_registered:
  "\<not> list_ex unregistered dcs \<Longrightarrow>
     ready_promises dcs =
       Inr (map (\<lambda>dc. BaseProvider.ready (the (DomainConnection.provider dc))) dcs)"
  by (induction dcs) (auto simp: unregistered_def split: option.split)

lemma earliest_rejection_member:
  "earliest_rejection ps = Some (t, e) \<Longrightarrow> Rejected t e \<in> set ps"
proof (induction ps arbitrary: t e rule: earliest_rejection.induct)
  case 1
  then show ?case by simp
next
  case (2 t' e' ps)
  then show ?case by (auto split: option.splits if_splits)
next
  case (3 t' v ps)
  then show ?case by simp
next
  case (4 ps)
  then show ?case by simp
qed

lemma earliest_rejection_None:
  "earliest_rejection ps = None \<Longrightarrow> Rejected t e \<notin> set ps"
  by (induction ps rule: earliest_rejection.induct) (auto split: option.splits if_splits)

lemma earliest_rejection_least:
  "earliest_rejection ps = Some (t, e) \<Longrightarrow> Rejected t' e' \<in> set ps \<Longrightarrow> t \<le> t'"
proof (induction ps arbitrary: t e rule: earliest_rejection.induct)
  case 1
  then show ?case by simp
next
  case (2 u d ps)
  show ?case
  proof (cases "earliest_rejection ps")
    case None
    with "2.prems" earliest_rejection_None [OF None, of t' e'] show ?thesis by auto
  next
    case (Some r)
    obtain u' d' where r: "r = (u', d')" by (cases r)
    have le: "Rejected t' e' \<in> set ps \<Longrightarrow> u' \<le> t'"
      using "2.IH" [of u' d'] Some r by simp
    from "2.prems" Some r le show ?thesis by (auto split: if_splits)
  qed
next
  case (3 u v ps)
  then show ?case by simp
next
  case (4 ps)
  then show ?case by simp
qed

lemma earliest_rejection_found:
  "list_ex is_rejected ps \<Longrightarrow> \<exists>t e. earliest_rejection ps = Some (t, e)"
  by (induction ps rule: earliest_rejection.induct) (auto split: option.split)

lemma fulfilment_of_fulfilled:
  "list_all is_fulfilled ps \<Longrightarrow>
     earliest_rejection ps = None \<and>
     (\<exists>t vs. fulfilment ps = Some (t, vs) \<and> length vs = length ps)"
  by (induction ps rule: fulfilment.induct) auto

lemma Promise_all_fulfilled:
  "list_all is_fulfilled ps \<Longrightarrow>
     \<exists>t vs. Promise_all ps = Fulfilled t vs \<and> length vs = length ps"
  using fulfilment_of_fulfilled [of ps] by (auto simp: Promise_all_def)

lemma Promise_all_rejected:
  "list_ex is_rejected ps \<Longrightarrow>
     \<exists>t e. Promise_all ps = Rejected t e \<and> Rejected t e \<in> set ps"
  using earliest_rejection_found [of ps] earliest_rejection_member [of ps]
  by (auto simp: Promise_all_def)

text \<open>
  C2. \<^verbatim>\<open>ready\<close> is fulfilled when every record has a provider whose readiness promise is
  fulfilled; it throws when some record has no provider; and when every record has a
  provider and the readiness promise of one is rejected, it is rejected with the
  rejection of a provider of the registry.
\<close>
theorem ready_all_or_nothing:
  "(list_all reachable (getAll mp) \<longrightarrow>
      (\<exists>t nets. MultiProvider_ready mp = Inr (Fulfilled t nets) \<and>
         length nets = length (getAll mp))) \<and>
   (list_ex unregistered (getAll mp) \<longrightarrow> MultiProvider_ready mp = Inl TypeError) \<and>
   (list_ex unreachable (getAll mp) \<longrightarrow> \<not> list_ex unregistered (getAll mp) \<longrightarrow>
      (\<exists>t e. MultiProvider_ready mp = Inr (Rejected t e) \<and>
         (\<exists>dc \<in> set (getAll mp). \<exists>p. DomainConnection.provider dc = Some p \<and>
            BaseProvider.ready p = Rejected t e)))"
proof (intro conjI impI)
  let ?dcs = "getAll mp"
  let ?ps = "map (\<lambda>dc. BaseProvider.ready (the (DomainConnection.provider dc))) ?dcs"
  assume ok: "list_all reachable ?dcs"
  then have reg: "\<not> list_ex unregistered ?dcs"
    by (auto simp: list_all_iff list_ex_iff reachable_def unregistered_def split: option.splits)
  from ok have "list_all is_fulfilled ?ps"
    by (auto simp: list_all_iff reachable_def split: option.splits)
  then obtain t vs where "Promise_all ?ps = Fulfilled t vs" "length vs = length ?ps"
    using Promise_all_fulfilled by blast
  with ready_promises_registered [OF reg]
  show "\<exists>t nets. MultiProvider_ready mp = Inr (Fulfilled t nets) \<and> length nets = length ?dcs"
    by (simp add: MultiProvider_ready_def getAll_def)
next
  assume "list_ex unregistered (getAll mp)"
  then show "MultiProvider_ready mp = Inl TypeError"
    by (simp add: MultiProvider_ready_def getAll_def ready_promises_unregistered)
next
  let ?dcs = "getAll mp"
  let ?ps = "map (\<lambda>dc. BaseProvider.ready (the (DomainConnection.provider dc))) ?dcs"
  assume bad: "list_ex unreachable ?dcs" and reg: "\<not> list_ex unregistered ?dcs"
  from bad have "list_ex is_rejected ?ps"
    by (force simp: list_ex_iff unreachable_def split: option.splits)
  then obtain t e where r: "Promise_all ?ps = Rejected t e" and m: "Rejected t e \<in> set ?ps"
    using Promise_all_rejected by blast
  from m obtain dc where dc: "dc \<in> set ?dcs"
      "BaseProvider.ready (the (DomainConnection.provider dc)) = Rejected t e"
    by auto
  with reg obtain p where "DomainConnection.provider dc = Some p"
    by (auto simp: list_ex_iff unregistered_def)
  with dc have "\<exists>dc \<in> set ?dcs. \<exists>p. DomainConnection.provider dc = Some p \<and>
      BaseProvider.ready p = Rejected t e"
    by auto
  with r ready_promises_registered [OF reg]
  show "\<exists>t e. MultiProvider_ready mp = Inr (Rejected t e) \<and>
         (\<exists>dc \<in> set ?dcs. \<exists>p. DomainConnection.provider dc = Some p \<and>
            BaseProvider.ready p = Rejected t e)"
    by (simp add: MultiProvider_ready_def getAll_def)
qed

theorem ready_all_or_nothing_witness:
  "list_all reachable (getAll reachable_registry) \<and>
   (\<exists>t nets. MultiProvider_ready reachable_registry = Inr (Fulfilled t nets) \<and>
      length nets = length (getAll reachable_registry)) \<and>
   list_ex unregistered (getAll example_registry) \<and>
   MultiProvider_ready example_registry = Inl TypeError \<and>
   list_ex unreachable (getAll unreachable_registry) \<and>
   \<not> list_ex unregistered (getAll unreachable_registry) \<and>
   (\<exists>t e. MultiProvider_ready unreachable_registry = Inr (Rejected t e) \<and>
      (\<exists>dc \<in> set (getAll unreachable_registry). \<exists>p. DomainConnection.provider dc = Some p \<and>
         BaseProvider.ready p = Rejected t e))"
proof -
  have a: "list_all reachable (getAll reachable_registry)"
    by (simp add: reachable_registry_def new_MultiProvider_def fromEntries_def getAll_def
        MultiGeneric_values_def new_DomainConnection_def settings_with_def reachable_def
        local_rpc_def)
  have b: "list_ex unregistered (getAll example_registry)"
    by (simp add: example_registry_def new_MultiProvider_def fromEntries_def getAll_def
        MultiGeneric_values_def new_DomainConnection_def no_settings_def unregistered_def)
  have c: "list_ex unreachable (getAll unreachable_registry)"
    by (simp add: unreachable_registry_def new_MultiProvider_def fromEntries_def getAll_def
        MultiGeneric_values_def new_DomainConnection_def settings_with_def unreachable_def
        local_rpc_def down_rpc_def)
  have d: "\<not> list_ex unregistered (getAll unreachable_registry)"
    by (simp add: unreachable_registry_def new_MultiProvider_def fromEntries_def getAll_def
        MultiGeneric_values_def new_DomainConnection_def settings_with_def unregistered_def)
  note r1 = ready_all_or_nothing [of reachable_registry, THEN conjunct1, rule_format, OF a]
  note r2 = ready_all_or_nothing [of example_registry, THEN conjunct2, THEN conjunct1,
      rule_format, OF b]
  note r3 = ready_all_or_nothing [of unreachable_registry, THEN conjunct2, THEN conjunct2,
      rule_format, OF c d]
  from a r1 b r2 c d r3 show ?thesis by (intro conjI)
qed

end
